theory Spec2Isabelle
  imports Main
begin

section \<open>Python values, errors and the outside world\<close>

text \<open>
  The program is dynamically typed: the session state is a dict from key strings to
  arbitrary values, and a conversation turn is a dict holding a list of content blocks
  that are SDK objects or plain dicts. \<open>pyval\<close> is the universe of values the modelled
  code can meet. Dict keys are strings (the only keys the code uses); the SDK's block
  classes are constructors of their own, since the code dispatches on them with
  \<open>isinstance\<close>; any other object is its class name and its attributes.
\<close>

datatype pyval =
    PNone
  | PBool bool
  | PInt int
  | PStr string
  | PBytes string
  | PList "pyval list"
  | PDict "(string \<times> pyval) list"
  | PTextBlock string
  | PBetaTextBlock string
  | PToolUseBlock string pyval
  | PBetaToolUseBlock string pyval
  | PObject string "(string \<times> pyval) list"

text \<open>Every exception the modelled code can raise derives from Python's \<open>Exception\<close>.\<close>

datatype py_error =
    KeyError
  | IndexError
  | TypeError
  | AttributeError
  | ValueError string
  | OSError
  | LibraryError string

type_synonym state = "string \<rightharpoonup> pyval"

text \<open>
  A file of the configuration directory, as \<open>load_from_storage\<close> sees it: absent,
  present but failing to read, or holding a text.
\<close>

datatype file_read = Missing | Unreadable | Content string

record datetime =
  year :: nat
  month :: nat
  day :: nat
  hour :: nat
  minute :: nat
  second :: nat
  microsecond :: nat

datatype file_content = TextFile string | PngFile string

text \<open>
  The world outside the process: the configuration directory, the environment
  variables, the clock (\<open>clock w n\<close> is what the \<open>n\<close>-th call of \<open>now()\<close> returns,
  \<open>ticks\<close> counts the calls made so far), and the files written so far, with the paths
  that can be opened for writing.
\<close>

record world =
  storage_files :: "string \<Rightarrow> file_read"
  environ :: "string \<rightharpoonup> string"
  clock :: "nat \<Rightarrow> datetime"
  ticks :: nat
  writable :: "string \<Rightarrow> bool"
  disk :: "string \<rightharpoonup> file_content"

text \<open>What the agent loop is called with, and what it leaves behind.\<close>

record loop_args =
  system_prompt_suffix :: pyval
  model :: pyval
  provider :: pyval
  messages :: pyval
  api_key :: pyval
  only_n_most_recent_images :: pyval
  tool_state :: pyval
  response_state :: pyval

record loop_outcome =
  raised :: "py_error option"
  messages_after :: pyval
  tools_after :: pyval
  responses_after :: pyval

text \<open>
  Code that the program imports and that is not part of its source file: the provider
  table and enum of \<open>computer_use_demo.loop\<close>, the agent loop itself, the
  \<open>ToolResult\<close> class of \<open>computer_use_demo.tools\<close> (its subclasses and its
  \<open>__bool__\<close>), and the library functions \<open>str\<close>, \<open>base64.b64decode\<close> and
  \<open>PIL.Image.open\<close>. They are parameters of the model.
\<close>

record lib =
  default_model_name :: "string \<rightharpoonup> string"
  anthropic_provider :: string
  py_str :: "pyval \<Rightarrow> string"
  object_truthy :: "string \<Rightarrow> (string \<times> pyval) list \<Rightarrow> bool"
  tool_result_subclass :: "string \<Rightarrow> bool"
  b64decode :: "string \<Rightarrow> py_error + string"
  image_open :: "string \<Rightarrow> py_error + string"
  sampling_loop :: "loop_args \<Rightarrow> world \<Rightarrow> loop_outcome \<times> world"

section \<open>Built-in operations of Python\<close>

text \<open>Truth value testing: \<open>if x\<close>, \<open>not x\<close>, \<open>x or y\<close>.\<close>

fun truthy :: "lib \<Rightarrow> pyval \<Rightarrow> bool" where
  "truthy L PNone = False"
| "truthy L (PBool b) = b"
| "truthy L (PInt i) = (i \<noteq> 0)"
| "truthy L (PStr s) = (s \<noteq> [])"
| "truthy L (PBytes s) = (s \<noteq> [])"
| "truthy L (PList xs) = (xs \<noteq> [])"
| "truthy L (PDict kvs) = (kvs \<noteq> [])"
| "truthy L (PTextBlock t) = True"
| "truthy L (PBetaTextBlock t) = True"
| "truthy L (PToolUseBlock n i) = True"
| "truthy L (PBetaToolUseBlock n i) = True"
| "truthy L (PObject c attrs) = object_truthy L c attrs"

text \<open>\<open>v[k]\<close> for a string key \<open>k\<close>: only a dict can be subscripted by a string.\<close>

fun subscript_key :: "pyval \<Rightarrow> string \<Rightarrow> py_error + pyval" where
  "subscript_key (PDict kvs) k = (case map_of kvs k of None \<Rightarrow> Inl KeyError | Some v \<Rightarrow> Inr v)"
| "subscript_key v k = Inl TypeError"

text \<open>
  \<open>v[0]\<close>: the first element of a list, the first character of a string, the first
  byte of a bytes object; a dict with string keys has no key \<open>0\<close>.
\<close>

fun subscript_0 :: "pyval \<Rightarrow> py_error + pyval" where
  "subscript_0 (PList xs) = (case xs of [] \<Rightarrow> Inl IndexError | x # _ \<Rightarrow> Inr x)"
| "subscript_0 (PStr s) = (case s of [] \<Rightarrow> Inl IndexError | c # _ \<Rightarrow> Inr (PStr [c]))"
| "subscript_0 (PBytes s) = (case s of [] \<Rightarrow> Inl IndexError | c # _ \<Rightarrow> Inr (PInt (of_char c)))"
| "subscript_0 (PDict kvs) = Inl KeyError"
| "subscript_0 v = Inl TypeError"

text \<open>\<open>for x in v\<close>: the elements of a list, the characters of a string, the keys of a dict.\<close>

fun py_iter :: "pyval \<Rightarrow> py_error + pyval list" where
  "py_iter (PList xs) = Inr xs"
| "py_iter (PStr s) = Inr (map (\<lambda>c. PStr [c]) s)"
| "py_iter (PBytes s) = Inr (map (\<lambda>c. PInt (of_char c)) s)"
| "py_iter (PDict kvs) = Inr (map (\<lambda>kv. PStr (fst kv)) kvs)"
| "py_iter v = Inl TypeError"

text \<open>\<open>v.name\<close>: attribute access on an object that is not one of the SDK's blocks.\<close>

fun getattr :: "pyval \<Rightarrow> string \<Rightarrow> py_error + pyval" where
  "getattr (PObject c attrs) a = (case map_of attrs a of None \<Rightarrow> Inl AttributeError | Some v \<Rightarrow> Inr v)"
| "getattr v a = Inl AttributeError"

definition hasattr :: "pyval \<Rightarrow> string \<Rightarrow> bool" where
  "hasattr v a = (case getattr v a of Inl _ \<Rightarrow> False | Inr _ \<Rightarrow> True)"

text \<open>\<open>f"{v}"\<close>: a string is inserted as it is, anything else through \<open>str\<close>.\<close>

definition fmt :: "lib \<Rightarrow> pyval \<Rightarrow> string" where
  "fmt L v = (case v of PStr s \<Rightarrow> s | _ \<Rightarrow> py_str L v)"

text \<open>
  \<open>str.strip()\<close>: the whitespace characters of the ASCII range (a \<open>char\<close> is a byte
  here; the texts the model reads are taken to be ASCII).
\<close>

definition py_isspace :: "char \<Rightarrow> bool" where
  "py_isspace c = (c \<in> set [CHR 0x20, CHR 0x09, CHR 0x0A, CHR 0x0B, CHR 0x0C, CHR 0x0D,
                            CHR 0x1C, CHR 0x1D, CHR 0x1E, CHR 0x1F])"

definition py_strip :: "string \<Rightarrow> string" where
  "py_strip s = rev (dropWhile py_isspace (rev (dropWhile py_isspace s)))"

text \<open>\<open>os.getenv(name, default)\<close>.\<close>

definition getenv :: "world \<Rightarrow> string \<Rightarrow> string \<Rightarrow> string" where
  "getenv w name dflt = (case environ w name of None \<Rightarrow> dflt | Some v \<Rightarrow> v)"

section \<open>Session bootstrap\<close>

text \<open>
  \<open>load_from_storage\<close>: the stripped text of the file when the file exists, reads and
  is not blank; \<open>None\<close> otherwise (any exception is caught and printed).
\<close>

definition load_from_storage :: "world \<Rightarrow> string \<Rightarrow> string option" where
  "load_from_storage w filename =
     (case storage_files w filename of
        Content t \<Rightarrow> (let data = py_strip t in if data \<noteq> [] then Some data else None)
      | _ \<Rightarrow> None)"

text \<open>
  \<open>_reset_model\<close>: \<open>state["model"] = PROVIDER_TO_DEFAULT_MODEL_NAME[state["provider"]]\<close>.
  The table is keyed by the provider enum, whose members are strings; a list, a dict
  or a block of the SDK is not hashable.
\<close>

definition reset_model :: "lib \<Rightarrow> state \<Rightarrow> py_error + state" where
  "reset_model L s =
     (case s ''provider'' of
        None \<Rightarrow> Inl KeyError
      | Some (PStr p) \<Rightarrow>
          (case default_model_name L p of
             None \<Rightarrow> Inl KeyError
           | Some m \<Rightarrow> Inr (s(''model'' \<mapsto> PStr m)))
      | Some (PList _) \<Rightarrow> Inl TypeError
      | Some (PDict _) \<Rightarrow> Inl TypeError
      | Some (PTextBlock _) \<Rightarrow> Inl TypeError
      | Some (PBetaTextBlock _) \<Rightarrow> Inl TypeError
      | Some (PToolUseBlock _ _) \<Rightarrow> Inl TypeError
      | Some (PBetaToolUseBlock _ _) \<Rightarrow> Inl TypeError
      | Some _ \<Rightarrow> Inl KeyError)"

text \<open>
  \<open>setup_state\<close> is a sequence of statements \<open>if key not in state: body\<close>. Each is a
  pair of the key and the body; \<open>run_defaults\<close> runs them in order on the state dict,
  which is mutated in place: when a body raises, the exception leaves \<open>setup_state\<close>
  and the dict keeps what the earlier statements stored.
\<close>

type_synonym default_step = "string \<times> (state \<Rightarrow> py_error + state)"

fun run_defaults :: "default_step list \<Rightarrow> state \<Rightarrow> py_error option \<times> state" where
  "run_defaults [] s = (None, s)"
| "run_defaults ((k, body) # rest) s =
     (if s k \<noteq> None then run_defaults rest s
      else (case body s of
              Inl e \<Rightarrow> (Some e, s)
            | Inr s' \<Rightarrow> run_defaults rest s'))"

definition api_key_default :: "world \<Rightarrow> string" where
  "api_key_default w =
     (let k = (case load_from_storage w ''api_key'' of
                 Some d \<Rightarrow> d
               | None \<Rightarrow> getenv w ''ANTHROPIC_API_KEY'' '''')
      in if k = [] then ''YOUR_API_KEY_HERE'' else k)"

definition provider_default :: "lib \<Rightarrow> world \<Rightarrow> string" where
  "provider_default L w =
     (let p = getenv w ''API_PROVIDER'' ''anthropic''
      in if p \<noteq> [] then p else anthropic_provider L)"

definition custom_system_prompt_default :: "world \<Rightarrow> string" where
  "custom_system_prompt_default w =
     (case load_from_storage w ''system_prompt'' of Some d \<Rightarrow> d | None \<Rightarrow> '''')"

definition setup_state_steps :: "lib \<Rightarrow> world \<Rightarrow> default_step list" where
  "setup_state_steps L w =
     [(''messages'', \<lambda>s. Inr (s(''messages'' \<mapsto> PList []))),
      (''api_key'', \<lambda>s. Inr (s(''api_key'' \<mapsto> PStr (api_key_default w)))),
      (''provider'', \<lambda>s. Inr (s(''provider'' \<mapsto> PStr (provider_default L w)))),
      (''provider_radio'', \<lambda>s. (case s ''provider'' of
                                   None \<Rightarrow> Inl KeyError
                                 | Some p \<Rightarrow> Inr (s(''provider_radio'' \<mapsto> p)))),
      (''model'', reset_model L),
      (''auth_validated'', \<lambda>s. Inr (s(''auth_validated'' \<mapsto> PBool False))),
      (''responses'', \<lambda>s. Inr (s(''responses'' \<mapsto> PDict []))),
      (''tools'', \<lambda>s. Inr (s(''tools'' \<mapsto> PDict []))),
      (''only_n_most_recent_images'', \<lambda>s. Inr (s(''only_n_most_recent_images'' \<mapsto> PInt 10))),
      (''custom_system_prompt'',
         \<lambda>s. Inr (s(''custom_system_prompt'' \<mapsto> PStr (custom_system_prompt_default w)))),
      (''hide_images'', \<lambda>s. Inr (s(''hide_images'' \<mapsto> PBool False)))]"

definition setup_state :: "lib \<Rightarrow> world \<Rightarrow> state \<Rightarrow> py_error option \<times> state" where
  "setup_state L w s = run_defaults (setup_state_steps L w) s"

section \<open>The agent loop\<close>

text \<open>\<open>state.get(key)\<close>: \<open>None\<close> for a key that is not in the dict.\<close>

definition state_get :: "state \<Rightarrow> string \<Rightarrow> pyval" where
  "state_get s k = (case s k of None \<Rightarrow> PNone | Some v \<Rightarrow> v)"

text \<open>
  The call of \<open>sampling_loop\<close>: its arguments are read from the state in the order
  they are written (a missing key raises \<open>KeyError\<close>); the loop works on the list and
  the two dicts it is given, so what it leaves in them is what the state holds after.
\<close>

definition sampling_loop_call :: "lib \<Rightarrow> world \<Rightarrow> state \<Rightarrow> (py_error option \<times> state) \<times> world" where
  "sampling_loop_call L w s =
     (case (s ''custom_system_prompt'', s ''model'', s ''provider'', s ''messages'',
            s ''tools'', s ''responses'', s ''api_key'', s ''only_n_most_recent_images'') of
        (Some sp, Some m, Some p, Some ms, Some ts, Some rs, Some k, Some n) \<Rightarrow>
          (let (out, w') =
                 sampling_loop L
                   \<lparr>system_prompt_suffix = sp, model = m, provider = p, messages = ms,
                    api_key = k, only_n_most_recent_images = n,
                    tool_state = ts, response_state = rs\<rparr> w
           in ((raised out,
                s(''messages'' \<mapsto> messages_after out, ''tools'' \<mapsto> tools_after out,
                  ''responses'' \<mapsto> responses_after out)), w'))
      | _ \<Rightarrow> ((Some KeyError, s), w))"

definition sampling_loop_wrapper :: "lib \<Rightarrow> world \<Rightarrow> state \<Rightarrow> (py_error option \<times> state) \<times> world" where
  "sampling_loop_wrapper L w s =
     (if \<not> truthy L (state_get s ''api_key'')
      then ((Some (ValueError ''API key is missing. Please set it in the environment or storage.''), s), w)
      else sampling_loop_call L w s)"

section \<open>Rendering one message for the loop\<close>

datatype sender = USER | BOT | TOOL

definition is_tool_result :: "lib \<Rightarrow> pyval \<Rightarrow> bool" where
  "is_tool_result L message =
     (case message of
        PObject c attrs \<Rightarrow> tool_result_subclass L c \<or> c = ''ToolResult'' \<or> c = ''CLIResult''
      | _ \<Rightarrow> False)"

text \<open>\<open>base64.b64decode\<close> takes a string or a bytes object.\<close>

definition b64decode_value :: "lib \<Rightarrow> pyval \<Rightarrow> py_error + pyval" where
  "b64decode_value L v =
     (case v of
        PStr s \<Rightarrow> (case b64decode L s of Inl e \<Rightarrow> Inl e | Inr b \<Rightarrow> Inr (PBytes b))
      | PBytes s \<Rightarrow> (case b64decode L s of Inl e \<Rightarrow> Inl e | Inr b \<Rightarrow> Inr (PBytes b))
      | _ \<Rightarrow> Inl TypeError)"

definition tool_use_text :: "lib \<Rightarrow> string \<Rightarrow> pyval \<Rightarrow> string" where
  "tool_use_text L name inp = ''Tool Use: '' @ name @ [CHR 0x0A] @ ''Input: '' @ fmt L inp"

text \<open>
  The first test of \<open>_render_message\<close>:
  \<open>not message or (is_tool_result and state["hide_images"] and not hasattr(message, "error")
  and not hasattr(message, "output"))\<close>, evaluated left to right with short circuit.
\<close>

definition render_nothing :: "lib \<Rightarrow> pyval \<Rightarrow> state \<Rightarrow> py_error + bool" where
  "render_nothing L message s =
     (if \<not> truthy L message then Inr True
      else if \<not> is_tool_result L message then Inr False
      else (case s ''hide_images'' of
              None \<Rightarrow> Inl KeyError
            | Some h \<Rightarrow> Inr (truthy L h \<and> \<not> hasattr message ''error'' \<and> \<not> hasattr message ''output'')))"

definition render_tool_result :: "lib \<Rightarrow> pyval \<Rightarrow> state \<Rightarrow> py_error + pyval" where
  "render_tool_result L message s =
     (case getattr message ''output'' of
        Inl e \<Rightarrow> Inl e
      | Inr out \<Rightarrow>
          if truthy L out then Inr out
          else (case getattr message ''error'' of
                  Inl e \<Rightarrow> Inl e
                | Inr err \<Rightarrow>
                    if truthy L err then Inr (PStr (''Error: '' @ fmt L err))
                    else (case getattr message ''base64_image'' of
                            Inl e \<Rightarrow> Inl e
                          | Inr img \<Rightarrow>
                              if \<not> truthy L img then Inr PNone
                              else (case s ''hide_images'' of
                                      None \<Rightarrow> Inl KeyError
                                    | Some h \<Rightarrow>
                                        if truthy L h then Inr PNone
                                        else b64decode_value L img))))"

definition render_message :: "lib \<Rightarrow> sender \<Rightarrow> pyval \<Rightarrow> state \<Rightarrow> py_error + pyval" where
  "render_message L sndr message s =
     (case render_nothing L message s of
        Inl e \<Rightarrow> Inl e
      | Inr True \<Rightarrow> Inr PNone
      | Inr False \<Rightarrow>
          if is_tool_result L message then render_tool_result L message s
          else (case message of
                  PBetaTextBlock t \<Rightarrow> Inr (PStr t)
                | PTextBlock t \<Rightarrow> Inr (PStr t)
                | PBetaToolUseBlock n i \<Rightarrow> Inr (PStr (tool_use_text L n i))
                | PToolUseBlock n i \<Rightarrow> Inr (PStr (tool_use_text L n i))
                | _ \<Rightarrow> Inr message))"

section \<open>Saving a screenshot\<close>

definition digit :: "nat \<Rightarrow> char" where
  "digit n = ''0123456789'' ! (n mod 10)"

definition pad2 :: "nat \<Rightarrow> string" where
  "pad2 n = [digit (n div 10), digit n]"

definition pad4 :: "nat \<Rightarrow> string" where
  "pad4 n = [digit (n div 1000), digit (n div 100), digit (n div 10), digit n]"

text \<open>\<open>strftime('%Y-%m-%d_%H-%M-%S')\<close>, for the years 1000 to 9999.\<close>

definition strftime_stamp :: "datetime \<Rightarrow> string" where
  "strftime_stamp t =
     pad4 (year t) @ ''-'' @ pad2 (month t) @ ''-'' @ pad2 (day t) @ ''_'' @
     pad2 (hour t) @ ''-'' @ pad2 (minute t) @ ''-'' @ pad2 (second t)"

text \<open>\<open>datetime.datetime.now()\<close> reads the clock once.\<close>

definition now :: "world \<Rightarrow> datetime \<times> world" where
  "now w = (clock w (ticks w), w\<lparr>ticks := Suc (ticks w)\<rparr>)"

definition startswith :: "string \<Rightarrow> string \<Rightarrow> bool" where
  "startswith s p = (take (length p) s = p)"

text \<open>\<open>s.split(c)\<close> for a separator of one character.\<close>

fun split_sep :: "char \<Rightarrow> string \<Rightarrow> string list" where
  "split_sep c [] = [[]]"
| "split_sep c (x # xs) =
     (if x = c then [] # split_sep c xs
      else (case split_sep c xs of
              [] \<Rightarrow> [[x]]
            | p # ps \<Rightarrow> (x # p) # ps))"

text \<open>
  The first two lines of \<open>decode_base64_image\<close>: a \<open>data:image\<close> prefix is cut off
  at the first comma. Only a string has a \<open>startswith\<close> that takes a string.
\<close>

definition strip_data_prefix :: "pyval \<Rightarrow> py_error + string" where
  "strip_data_prefix base64_str =
     (case base64_str of
        PStr s \<Rightarrow>
          (if startswith s ''data:image''
           then (case split_sep CHR '','' s of
                   _ # p # _ \<Rightarrow> Inr p
                 | _ \<Rightarrow> Inl IndexError)
           else Inr s)
      | PBytes _ \<Rightarrow> Inl TypeError
      | _ \<Rightarrow> Inl AttributeError)"

text \<open>
  \<open>decode_base64_image\<close> returns the file name it computes after saving, or raises;
  the world it leaves has the clock reads and the saved file. The clock is read once
  for the name the image is saved under and once more for the name that is returned.
\<close>

definition decode_base64_image :: "lib \<Rightarrow> world \<Rightarrow> pyval \<Rightarrow> (py_error + string) \<times> world" where
  "decode_base64_image L w base64_str =
     (case strip_data_prefix base64_str of
        Inl e \<Rightarrow> (Inl e, w)
      | Inr s \<Rightarrow>
          (case b64decode L s of
             Inl e \<Rightarrow> (Inl e, w)
           | Inr image_data \<Rightarrow>
               (case image_open L image_data of
                  Inl e \<Rightarrow> (Inl e, w)
                | Inr img \<Rightarrow>
                    (let (t1, w1) = now w;
                         saved = strftime_stamp t1 @ ''.png''
                     in if \<not> writable w1 saved then (Inl OSError, w1)
                        else (let w2 = w1\<lparr>disk := (disk w1)(saved \<mapsto> PngFile img)\<rparr>;
                                  (t2, w3) = now w2
                              in (Inr (strftime_stamp t2 @ ''.png''), w3))))))"

section \<open>Handling one user input\<close>

text \<open>What the chat display shows in one cell: a text, or an image component for a file.\<close>

datatype renderable = Utterance string | GrImage string

type_synonym display_pair = "renderable option \<times> renderable option"

text \<open>\<open>x["content"][0]\<close>, for a message and for a tool-result block alike.\<close>

definition content_0 :: "pyval \<Rightarrow> py_error + pyval" where
  "content_0 x = (case subscript_key x ''content'' of Inl e \<Rightarrow> Inl e | Inr c \<Rightarrow> subscript_0 c)"

definition msg_txt_path :: string where
  "msg_txt_path = ''D:'' @ [CHR 0x5C] @ ''msg.txt''"

text \<open>
  The branch of the display loop for a dict block whose first content item has type
  \<open>"image"\<close>: the block is written to a text file, the image is decoded and saved, and
  the pair shows the saved file on the right.
\<close>

definition render_image_block :: "lib \<Rightarrow> world \<Rightarrow> pyval \<Rightarrow> (py_error + display_pair option) \<times> world" where
  "render_image_block L w block =
     (if \<not> writable w msg_txt_path then (Inl OSError, w)
      else (let w1 = w\<lparr>disk := (disk w)(msg_txt_path \<mapsto> TextFile (py_str L block))\<rparr>
            in case content_0 block of
                 Inl e \<Rightarrow> (Inl e, w1)
               | Inr item \<Rightarrow>
                   (case subscript_key item ''source'' of
                      Inl e \<Rightarrow> (Inl e, w1)
                    | Inr src \<Rightarrow>
                        (case subscript_key src ''data'' of
                           Inl e \<Rightarrow> (Inl e, w1)
                         | Inr data \<Rightarrow>
                             (case decode_base64_image L w1 data of
                                (Inl e, w2) \<Rightarrow> (Inl e, w2)
                              | (Inr image_path, w2) \<Rightarrow>
                                  (Inr (Some (None, Some (GrImage image_path))), w2))))))"

text \<open>
  The body of the \<open>try\<close> in the display loop, on one message: the pair to append
  (\<open>None\<close> when the block is only printed), or the exception raised.
\<close>

definition render_turn :: "lib \<Rightarrow> world \<Rightarrow> pyval \<Rightarrow> (py_error + display_pair option) \<times> world" where
  "render_turn L w msg =
     (case content_0 msg of
        Inl e \<Rightarrow> (Inl e, w)
      | Inr (PTextBlock t) \<Rightarrow> (Inr (Some (Some (Utterance t), None)), w)
      | Inr (PBetaTextBlock t) \<Rightarrow> (Inr (Some (None, Some (Utterance t))), w)
      | Inr (PBetaToolUseBlock n i) \<Rightarrow> (Inr (Some (None, Some (Utterance (tool_use_text L n i)))), w)
      | Inr (PDict d) \<Rightarrow>
          (case content_0 (PDict d) of
             Inl e \<Rightarrow> (Inl e, w)
           | Inr item \<Rightarrow>
               (case subscript_key item ''type'' of
                  Inl e \<Rightarrow> (Inl e, w)
                | Inr ty \<Rightarrow>
                    if ty = PStr ''image'' then render_image_block L w (PDict d)
                    else (Inr None, w)))
      | Inr _ \<Rightarrow> (Inr None, w))"

text \<open>
  The display loop \<open>for msg in state["messages"]\<close> with its \<open>try\<close>/\<open>except Exception\<close>:
  \<open>res\<close> is the list built so far; an exception is printed and the loop goes on.
\<close>

fun render_loop :: "lib \<Rightarrow> world \<Rightarrow> display_pair list \<Rightarrow> pyval list \<Rightarrow> display_pair list \<times> world" where
  "render_loop L w res [] = (res, w)"
| "render_loop L w res (msg # rest) =
     (case render_turn L w msg of
        (Inr (Some pair), w') \<Rightarrow> render_loop L w' (res @ [pair]) rest
      | (Inr None, w') \<Rightarrow> render_loop L w' res rest
      | (Inl e, w') \<Rightarrow> render_loop L w' res rest)"

text \<open>\<open>xs.append(x)\<close>: among the values of the model only a list has \<open>append\<close>.\<close>

definition list_append :: "pyval \<Rightarrow> pyval \<Rightarrow> py_error + pyval" where
  "list_append xs x = (case xs of PList ys \<Rightarrow> Inr (PList (ys @ [x])) | _ \<Rightarrow> Inl AttributeError)"

definition user_turn :: "string \<Rightarrow> pyval" where
  "user_turn user_input = PDict [(''role'', PStr ''user''), (''content'', PList [PTextBlock user_input])]"

definition append_user_turn :: "string \<Rightarrow> state \<Rightarrow> py_error + state" where
  "append_user_turn user_input s =
     (case s ''messages'' of
        None \<Rightarrow> Inl KeyError
      | Some ms \<Rightarrow>
          (case list_append ms (user_turn user_input) of
             Inl e \<Rightarrow> Inl e
           | Inr ms' \<Rightarrow> Inr (s(''messages'' \<mapsto> ms'))))"

text \<open>
  \<open>process_input\<close>: bootstrap, append the user's turn, run the agent loop, then build
  the display pairs from the whole store. The result is the list of pairs or the
  exception that left the function, with the state dict and the world as they are then.
\<close>

definition process_input ::
  "lib \<Rightarrow> world \<Rightarrow> string \<Rightarrow> state \<Rightarrow> (py_error + display_pair list) \<times> state \<times> world" where
  "process_input L w user_input s0 =
     (case setup_state L w s0 of
        (Some e, s1) \<Rightarrow> (Inl e, s1, w)
      | (None, s1) \<Rightarrow>
          (case append_user_turn user_input s1 of
             Inl e \<Rightarrow> (Inl e, s1, w)
           | Inr s2 \<Rightarrow>
               (case sampling_loop_wrapper L w s2 of
                  ((Some e, s3), w3) \<Rightarrow> (Inl e, s3, w3)
                | ((None, s3), w3) \<Rightarrow>
                    (case s3 ''messages'' of
                       None \<Rightarrow> (Inl KeyError, s3, w3)
                     | Some ms \<Rightarrow>
                         (case py_iter ms of
                            Inl e \<Rightarrow> (Inl e, s3, w3)
                          | Inr turns \<Rightarrow>
                              (let (res, w4) = render_loop L w3 [] turns
                               in (Inr res, s3, w4)))))))"

section \<open>Notions used in the statements\<close>

text \<open>
  A step of the bootstrap only adds its own key: whenever its body returns, the state
  is the old one with a value stored under the step's key.
\<close>

definition adds_only :: "default_step list \<Rightarrow> bool" where
  "adds_only steps =
     (\<forall>(k, body) \<in> set steps. \<forall>s s'. body s = Inr s' \<longrightarrow> (\<exists>v. s' = s(k \<mapsto> v)))"

text \<open>
  Two step lists guard the same keys in the same order, and a body of the first that
  raises on a state raises the same on that state in the second.
\<close>

definition same_guards :: "default_step list \<Rightarrow> default_step list \<Rightarrow> bool" where
  "same_guards =
     list_all2 (\<lambda>a b. fst a = fst b \<and> (\<forall>s e. snd a s = Inl e \<longrightarrow> snd b s = Inl e))"

text \<open>
  The resolution chain in the words of the specification: the stored value, then the
  environment, then a hard-coded placeholder.
\<close>

definition resolve_chain :: "string option \<Rightarrow> string option \<Rightarrow> string \<Rightarrow> string" where
  "resolve_chain stored from_env placeholder =
     (case stored of
        Some v \<Rightarrow> v
      | None \<Rightarrow> (case from_env of Some v \<Rightarrow> v | None \<Rightarrow> placeholder))"

text \<open>An environment variable that is set to the empty string supplies nothing.\<close>

definition nonempty :: "string option \<Rightarrow> string option" where
  "nonempty v = (case v of Some x \<Rightarrow> (if x = [] then None else Some x) | None \<Rightarrow> None)"

text \<open>What one message contributes to the display: its pair, or nothing.\<close>

definition turn_pairs :: "py_error + display_pair option \<Rightarrow> display_pair list" where
  "turn_pairs r = (case r of Inr (Some pair) \<Rightarrow> [pair] | _ \<Rightarrow> [])"

section \<open>Concrete inputs\<close>

text \<open>
  A library whose agent loop appends the turns \<open>reply\<close> to the store and returns, with
  the provider table of the demo, a \<open>ToolResult\<close> that is true when one of its fields
  is, and a decoder that knows one payload.
\<close>

definition example_lib :: "pyval list \<Rightarrow> lib" where
  "example_lib reply =
     \<lparr>default_model_name =
        [''anthropic'' \<mapsto> ''claude-3-5-sonnet-20241022'',
         ''bedrock'' \<mapsto> ''anthropic.claude-3-5-sonnet-20241022-v2:0'',
         ''vertex'' \<mapsto> ''claude-3-5-sonnet-v2@20241022''],
      anthropic_provider = ''anthropic'',
      py_str = (\<lambda>v. ''<object>''),
      object_truthy = (\<lambda>c attrs. list_ex (\<lambda>kv. snd kv \<noteq> PNone \<and> snd kv \<noteq> PStr []) attrs),
      tool_result_subclass = (\<lambda>c. c \<in> set [''ToolResult'', ''CLIResult'', ''ToolFailure'']),
      b64decode = (\<lambda>s. if s = ''iVBORw0KGgo='' then Inr ''PNG'' else Inl (LibraryError ''binascii.Error'')),
      image_open = (\<lambda>b. if b = ''PNG'' then Inr ''PNG-image'' else Inl (LibraryError ''UnidentifiedImageError'')),
      sampling_loop = (\<lambda>args w.
        (\<lparr>raised = None,
          messages_after = (case messages args of PList xs \<Rightarrow> PList (xs @ reply) | v \<Rightarrow> v),
          tools_after = tool_state args,
          responses_after = response_state args\<rparr>, w))\<rparr>"

text \<open>A clock that stands still at noon, and one whose reads are 70 ms apart from 12:00:00.95 on.\<close>

definition steady_clock :: "nat \<Rightarrow> datetime" where
  "steady_clock n =
     \<lparr>year = 2024, month = 1, day = 1, hour = 12, minute = 0, second = 0, microsecond = 0\<rparr>"

definition ticking_clock :: "nat \<Rightarrow> datetime" where
  "ticking_clock n =
     \<lparr>year = 2024, month = 1, day = 1, hour = 12, minute = 0,
      second = (950000 + n * 70000) div 1000000,
      microsecond = (950000 + n * 70000) mod 1000000\<rparr>"

text \<open>
  A world with the given configuration files, environment and clock, where every path
  can be written and nothing has been written yet.
\<close>

definition example_world :: "(string \<Rightarrow> file_read) \<Rightarrow> (string \<rightharpoonup> string) \<Rightarrow> (nat \<Rightarrow> datetime) \<Rightarrow> world" where
  "example_world fs env clk =
     \<lparr>storage_files = fs, environ = env, clock = clk, ticks = 0,
      writable = (\<lambda>p. True), disk = Map.empty\<rparr>"

definition no_files :: "string \<Rightarrow> file_read" where
  "no_files name = Missing"

text \<open>
  Turns of the store as the agent loop leaves them: a tool result is a dict block of
  type \<open>tool_result\<close> in a turn of role \<open>user\<close>; its content is a list of text and
  image items, or the error text.
\<close>

definition tool_result_turn :: "pyval \<Rightarrow> bool \<Rightarrow> pyval" where
  "tool_result_turn content is_error =
     PDict [(''role'', PStr ''user''),
            (''content'', PList [PDict [(''type'', PStr ''tool_result''),
                                        (''content'', content),
                                        (''tool_use_id'', PStr ''toolu_01''),
                                        (''is_error'', PBool is_error)]])]"

definition text_item :: "string \<Rightarrow> pyval" where
  "text_item t = PDict [(''type'', PStr ''text''), (''text'', PStr t)]"

definition image_item :: "string \<Rightarrow> pyval" where
  "image_item data =
     PDict [(''type'', PStr ''image''),
            (''source'', PDict [(''type'', PStr ''base64''),
                                (''media_type'', PStr ''image/png''),
                                (''data'', PStr data)])]"

definition assistant_turn :: "pyval \<Rightarrow> pyval" where
  "assistant_turn block = PDict [(''role'', PStr ''assistant''), (''content'', PList [block])]"

text \<open>A \<open>ToolResult\<close> object with its four fields.\<close>

definition tool_result :: "pyval \<Rightarrow> pyval \<Rightarrow> pyval \<Rightarrow> pyval" where
  "tool_result out err img =
     PObject ''ToolResult'' [(''output'', out), (''error'', err), (''base64_image'', img),
                             (''system'', PNone)]"

text \<open>A state whose API key was set before the bootstrap runs.\<close>

definition keyed_state :: state where
  "keyed_state = [''api_key'' \<mapsto> PStr ''sk-ant-0001'']"

text \<open>A configuration directory in which every file holds the text \<open>bedrock\<close>.\<close>

definition bedrock_files :: "string \<Rightarrow> file_read" where
  "bedrock_files name = Content ''bedrock''"

text \<open>
  A configuration directory with a stored API key and a stored system prompt, and an
  environment that sets another key and the provider.
\<close>

definition stored_files :: "string \<Rightarrow> file_read" where
  "stored_files name =
     (if name = ''api_key'' then Content (''  sk-ant-stored'' @ [CHR 0x0A])
      else if name = ''system_prompt'' then Content ''be brief''
      else Missing)"

definition stored_env :: "string \<rightharpoonup> string" where
  "stored_env = [''ANTHROPIC_API_KEY'' \<mapsto> ''sk-ant-env'', ''API_PROVIDER'' \<mapsto> ''bedrock'']"

text \<open>A state that holds an empty API key before the bootstrap runs.\<close>

definition blank_key_state :: state where
  "blank_key_state = [''api_key'' \<mapsto> PStr []]"

text \<open>A turn that has no \<open>content\<close> key, and one whose content is empty.\<close>

definition malformed_turn :: pyval where
  "malformed_turn = PDict [(''role'', PStr ''user'')]"

definition empty_turn :: pyval where
  "empty_turn = PDict [(''role'', PStr ''user''), (''content'', PList [])]"

text \<open>The tool result of a screenshot: a single image item.\<close>

definition screenshot_turn :: pyval where
  "screenshot_turn = tool_result_turn (PList [image_item ''iVBORw0KGgo='']) False"

text \<open>A state in which the user has asked to hide screenshots.\<close>

definition hiding_state :: state where
  "hiding_state = [''hide_images'' \<mapsto> PBool True]"

definition showing_state :: state where
  "showing_state = [''hide_images'' \<mapsto> PBool False]"

text \<open>A state whose store is empty.\<close>

definition fresh_state :: state where
  "fresh_state = [''messages'' \<mapsto> PList []]"


section \<open>Properties of the bootstrap\<close>

lemma adds_only_Cons:
  "adds_only ((k, body) # rest) =
     ((\<forall>s s'. body s = Inr s' \<longrightarrow> (\<exists>v. s' = s(k \<mapsto> v))) \<and> adds_only rest)"
  by (simp add: adds_only_def)

lemma run_defaults_keeps:
  "adds_only steps \<Longrightarrow> s k = Some v \<Longrightarrow> snd (run_defaults steps s) k = Some v"
proof (induction steps arbitrary: s)
  case Nil
  then show ?case by simp
next
  case (Cons st rest)
  obtain k0 body where st: "st = (k0, body)" by (cases st)
  from Cons.prems(1) st have body: "\<And>s s'. body s = Inr s' \<Longrightarrow> \<exists>v. s' = s(k0 \<mapsto> v)"
    and rest: "adds_only rest" by (auto simp: adds_only_Cons)
  show ?case
  proof (cases "s k0 \<noteq> None")
    case True
    then show ?thesis using Cons.IH [of s, OF rest Cons.prems(2)] st by simp
  next
    case False
    show ?thesis
    proof (cases "body s")
      case (Inl e)
      then show ?thesis using False st Cons.prems(2) by simp
    next
      case (Inr s')
      from body [OF Inr] obtain v0 where s': "s' = s(k0 \<mapsto> v0)" by blast
      from False Cons.prems(2) have "k \<noteq> k0" by auto
      then have "s' k = Some v" using s' Cons.prems(2) by simp
      from Cons.IH [of s', OF rest this] show ?thesis using False st Inr by simp
    qed
  qed
qed

lemma run_defaults_again:
  "same_guards steps steps' \<Longrightarrow> adds_only steps \<Longrightarrow>
   run_defaults steps' (snd (run_defaults steps s)) = run_defaults steps s"
  unfolding same_guards_def
proof (induction steps steps' arbitrary: s rule: list_all2_induct)
  case Nil
  then show ?case by simp
next
  case (Cons a rest b rest')
  obtain k body where a: "a = (k, body)" by (cases a)
  obtain k' body' where b: "b = (k', body')" by (cases b)
  from Cons.hyps(1) a b have kk: "k' = k" and fail: "\<And>s e. body s = Inl e \<Longrightarrow> body' s = Inl e"
    by auto
  from Cons.prems a have body: "\<And>s s'. body s = Inr s' \<Longrightarrow> \<exists>v. s' = s(k \<mapsto> v)"
    and rest: "adds_only rest" by (auto simp: adds_only_Cons)
  show ?case
  proof (cases "s k \<noteq> None")
    case True
    then obtain v where "s k = Some v" by auto
    from run_defaults_keeps [of rest s, OF rest this]
    have "snd (run_defaults rest s) k \<noteq> None" by simp
    then show ?thesis using True a b kk Cons.IH [OF rest, of s] by simp
  next
    case False
    show ?thesis
    proof (cases "body s")
      case (Inl e)
      then show ?thesis using False a b kk fail [OF Inl] by simp
    next
      case (Inr s')
      from body [OF Inr] obtain v where "s' = s(k \<mapsto> v)" by blast
      then have "s' k = Some v" by simp
      from run_defaults_keeps [of rest s', OF rest this]
      have "snd (run_defaults rest s') k \<noteq> None" by simp
      then show ?thesis using False Inr a b kk Cons.IH [OF rest, of s'] by simp
    qed
  qed
qed

lemma adds_only_setup_state_steps: "adds_only (setup_state_steps L w)"
  by (auto simp: adds_only_def setup_state_steps_def reset_model_def
           split: option.splits pyval.splits)

lemma same_guards_setup_state_steps:
  "same_guards (setup_state_steps L w) (setup_state_steps L w')"
  by (simp add: same_guards_def setup_state_steps_def)

lemma setup_state_keeps: "s k = Some v \<Longrightarrow> snd (setup_state L w s) k = Some v"
  unfolding setup_state_def by (rule run_defaults_keeps [OF adds_only_setup_state_steps])

lemma setup_state_again: "setup_state L w' (snd (setup_state L w s)) = setup_state L w s"
  unfolding setup_state_def
  by (rule run_defaults_again [OF same_guards_setup_state_steps adds_only_setup_state_steps])

text \<open>
  C7. The bootstrap is idempotent: a second call of \<open>setup_state\<close> on the state the
  first call left, in whatever world, returns as the first did and leaves every field
  as it is; and no field that is present before a call is reset or overwritten by it.
\<close>

theorem setup_state_idempotent:
  "setup_state L w' (snd (setup_state L w s)) = setup_state L w s \<and>
   (\<forall>k v. s k = Some v \<longrightarrow> snd (setup_state L w s) k = Some v)"
  using setup_state_again setup_state_keeps by blast

theorem setup_state_idempotent_witness:
  "setup_state (example_lib []) (example_world no_files [''ANTHROPIC_API_KEY'' \<mapsto> ''sk-ant-0002''] steady_clock)
     (snd (setup_state (example_lib []) (example_world no_files Map.empty steady_clock) keyed_state))
   = setup_state (example_lib []) (example_world no_files Map.empty steady_clock) keyed_state \<and>
   keyed_state ''api_key'' = Some (PStr ''sk-ant-0001'') \<and>
   snd (setup_state (example_lib []) (example_world no_files Map.empty steady_clock) keyed_state) ''api_key''
     = Some (PStr ''sk-ant-0001'')"
  using setup_state_idempotent [of "example_lib []"
          "example_world no_files [''ANTHROPIC_API_KEY'' \<mapsto> ''sk-ant-0002''] steady_clock"
          "example_world no_files Map.empty steady_clock" keyed_state]
  by (simp add: keyed_state_def)

lemma run_defaults_mono: "adds_only steps \<Longrightarrow> s \<subseteq>\<^sub>m snd (run_defaults steps s)"
  unfolding map_le_def using run_defaults_keeps by (metis domD)

lemma run_defaults_ran:
  "adds_only steps \<Longrightarrow> distinct (map fst steps) \<Longrightarrow> (k, body) \<in> set steps \<Longrightarrow> s k = None \<Longrightarrow>
   run_defaults steps s = (None, sf) \<Longrightarrow>
   \<exists>s1 s2. body s1 = Inr s2 \<and> s \<subseteq>\<^sub>m s1 \<and> s1 k = None \<and> s2 \<subseteq>\<^sub>m sf"
proof (induction steps arbitrary: s)
  case Nil
  then show ?case by simp
next
  case (Cons st rest)
  obtain k0 b0 where st: "st = (k0, b0)" by (cases st)
  from Cons.prems(1) st have b0: "\<And>s s'. b0 s = Inr s' \<Longrightarrow> \<exists>v. s' = s(k0 \<mapsto> v)"
    and rest: "adds_only rest" by (auto simp: adds_only_Cons)
  from Cons.prems(2) st have k0_notin: "k0 \<notin> fst ` set rest" and dist: "distinct (map fst rest)"
    by auto
  show ?case
  proof (cases "k0 = k")
    case True
    with Cons.prems(3) st k0_notin have b: "b0 = body" by force
    from Cons.prems(4,5) st True b obtain s2 where s2: "body s = Inr s2"
      and run: "run_defaults rest s2 = (None, sf)"
      by (auto split: sum.splits)
    from run_defaults_mono [OF rest, of s2] run have "s2 \<subseteq>\<^sub>m sf" by simp
    with s2 Cons.prems(4) show ?thesis by (metis map_le_refl)
  next
    case False
    with Cons.prems(3) st have mem: "(k, body) \<in> set rest" by auto
    show ?thesis
    proof (cases "s k0 \<noteq> None")
      case True
      with Cons.prems(5) st have "run_defaults rest s = (None, sf)" by simp
      from Cons.IH [OF rest dist mem Cons.prems(4) this] show ?thesis .
    next
      case F: False
      with Cons.prems(5) st obtain s' where s': "b0 s = Inr s'"
        and run: "run_defaults rest s' = (None, sf)"
        by (auto split: sum.splits)
      from b0 [OF s'] obtain v0 where upd: "s' = s(k0 \<mapsto> v0)" by blast
      with False Cons.prems(4) have "s' k = None" by simp
      from Cons.IH [OF rest dist mem this run] obtain s1 s2
        where "body s1 = Inr s2" "s' \<subseteq>\<^sub>m s1" "s1 k = None" "s2 \<subseteq>\<^sub>m sf" by blast
      moreover have "s \<subseteq>\<^sub>m s'" using upd F by (auto simp: map_le_def)
      ultimately show ?thesis by (meson map_le_trans)
    qed
  qed
qed

lemma run_defaults_sets_early:
  assumes "adds_only (pre @ (k, body) # post)"
    and "\<forall>s. body s = Inr (s(k \<mapsto> v))"
    and "\<forall>st \<in> set pre. fst st \<noteq> k \<and> (\<forall>s. \<exists>s'. snd st s = Inr s')"
    and "s k = None"
  shows "snd (run_defaults (pre @ (k, body) # post) s) k = Some v"
  using assms(1,3,4)
proof (induction pre arbitrary: s)
  case Nil
  then have post: "adds_only post" by (simp add: adds_only_Cons)
  have "(s(k \<mapsto> v)) k = Some v" by simp
  from run_defaults_keeps [of post "s(k \<mapsto> v)" k v, OF post this]
  have "snd (run_defaults post (s(k \<mapsto> v))) k = Some v" .
  moreover have "run_defaults ([] @ (k, body) # post) s = run_defaults post (s(k \<mapsto> v))"
    using Nil.prems(3) assms(2) by simp
  ultimately show ?case by simp
next
  case (Cons st pre)
  obtain k0 b0 where st: "st = (k0, b0)" by (cases st)
  from Cons.prems(1) st have b0: "\<And>s s'. b0 s = Inr s' \<Longrightarrow> \<exists>v. s' = s(k0 \<mapsto> v)"
    and rest: "adds_only (pre @ (k, body) # post)"
    by (auto simp: adds_only_Cons)
  from Cons.prems(2) st have ne: "k0 \<noteq> k" and total: "\<And>s. \<exists>s'. b0 s = Inr s'"
    and pre: "\<forall>st \<in> set pre. fst st \<noteq> k \<and> (\<forall>s. \<exists>s'. snd st s = Inr s')"
    by auto
  show ?case
  proof (cases "s k0 \<noteq> None")
    case True
    with Cons.IH [of s, OF rest pre Cons.prems(3)] st show ?thesis by simp
  next
    case False
    from total obtain s' where s': "b0 s = Inr s'" by blast
    from b0 [OF s'] obtain v0 where "s' = s(k0 \<mapsto> v0)" by blast
    with ne Cons.prems(3) have "s' k = None" by simp
    from Cons.IH [of s', OF rest pre this] False s' st show ?thesis by simp
  qed
qed

lemma setup_state_sets_api_key:
  assumes "s ''api_key'' = None"
  shows "snd (setup_state L w s) ''api_key'' = Some (PStr (api_key_default w))"
proof -
  define pre :: "default_step list"
    where "pre = [(''messages'', \<lambda>s. Inr (s(''messages'' \<mapsto> PList [])))]"
  define body :: "state \<Rightarrow> py_error + state"
    where "body = (\<lambda>s. Inr (s(''api_key'' \<mapsto> PStr (api_key_default w))))"
  define post where "post = drop 2 (setup_state_steps L w)"
  have split: "setup_state_steps L w = pre @ (''api_key'', body) # post"
    by (simp add: setup_state_steps_def pre_def body_def post_def)
  have ao: "adds_only (pre @ (''api_key'', body) # post)"
    using adds_only_setup_state_steps [of L w] split by simp
  have b: "\<forall>s. body s = Inr (s(''api_key'' \<mapsto> PStr (api_key_default w)))"
    by (simp add: body_def)
  have p: "\<forall>st \<in> set pre. fst st \<noteq> ''api_key'' \<and> (\<forall>s. \<exists>s'. snd st s = Inr s')"
    by (simp add: pre_def)
  from run_defaults_sets_early [of pre "''api_key''" body post "PStr (api_key_default w)" s,
         OF ao b p assms]
  show ?thesis by (simp add: setup_state_def split)
qed

lemma setup_state_sets_provider:
  assumes "s ''provider'' = None"
  shows "snd (setup_state L w s) ''provider'' = Some (PStr (provider_default L w))"
proof -
  define pre :: "default_step list"
    where "pre = [(''messages'', \<lambda>s. Inr (s(''messages'' \<mapsto> PList []))),
                  (''api_key'', \<lambda>s. Inr (s(''api_key'' \<mapsto> PStr (api_key_default w))))]"
  define body :: "state \<Rightarrow> py_error + state"
    where "body = (\<lambda>s. Inr (s(''provider'' \<mapsto> PStr (provider_default L w))))"
  define post where "post = drop 3 (setup_state_steps L w)"
  have split: "setup_state_steps L w = pre @ (''provider'', body) # post"
    by (simp add: setup_state_steps_def pre_def body_def post_def)
  have ao: "adds_only (pre @ (''provider'', body) # post)"
    using adds_only_setup_state_steps [of L w] split by simp
  have b: "\<forall>s. body s = Inr (s(''provider'' \<mapsto> PStr (provider_default L w)))"
    by (simp add: body_def)
  have p: "\<forall>st \<in> set pre. fst st \<noteq> ''provider'' \<and> (\<forall>s. \<exists>s'. snd st s = Inr s')"
    by (simp add: pre_def)
  from run_defaults_sets_early [of pre "''provider''" body post "PStr (provider_default L w)" s,
         OF ao b p assms]
  show ?thesis by (simp add: setup_state_def split)
qed

lemma distinct_setup_state_keys: "distinct (map fst (setup_state_steps L w))"
  by (simp add: setup_state_steps_def)

lemma setup_state_ran:
  assumes "(k, body) \<in> set (setup_state_steps L w)" and "s k = None"
    and "fst (setup_state L w s) = None"
  shows "\<exists>s1 s2. body s1 = Inr s2 \<and> s \<subseteq>\<^sub>m s1 \<and> s1 k = None \<and> s2 \<subseteq>\<^sub>m snd (setup_state L w s)"
proof -
  from assms(3) have "run_defaults (setup_state_steps L w) s = (None, snd (setup_state L w s))"
    by (simp add: setup_state_def prod_eq_iff)
  from run_defaults_ran [OF adds_only_setup_state_steps distinct_setup_state_keys assms(1,2) this]
  show ?thesis .
qed

lemma map_le_upd_lookup: "s1(k \<mapsto> v) \<subseteq>\<^sub>m sf \<Longrightarrow> sf k = Some v"
  by (metis domI fun_upd_same map_le_def)

lemma setup_state_sets_constant:
  assumes "(k, \<lambda>s. Inr (s(k \<mapsto> v))) \<in> set (setup_state_steps L w)" and "s k = None"
    and "fst (setup_state L w s) = None"
  shows "snd (setup_state L w s) k = Some v"
proof -
  from setup_state_ran [of k "\<lambda>s. Inr (s(k \<mapsto> v))" L w s, OF assms] obtain s1 s2
    where r: "Inr (s1(k \<mapsto> v)) = (Inr s2 :: py_error + state)"
      and le: "s2 \<subseteq>\<^sub>m snd (setup_state L w s)" by blast
  from r have "s2 = s1(k \<mapsto> v)" by simp
  with le show ?thesis by (simp add: map_le_upd_lookup)
qed

lemma map_le_lookup: "m \<subseteq>\<^sub>m m' \<Longrightarrow> m k = Some v \<Longrightarrow> m' k = Some v"
  by (metis domI map_le_def)

lemma reset_model_Inr:
  "reset_model L s1 = Inr s2 \<Longrightarrow>
   \<exists>p m. s1 ''provider'' = Some (PStr p) \<and> default_model_name L p = Some m \<and>
         s2 = s1(''model'' \<mapsto> PStr m)"
  by (simp add: reset_model_def split: option.splits pyval.splits)

lemma setup_state_sets_model:
  assumes "s ''model'' = None" and "fst (setup_state L w s) = None"
  shows "\<exists>p m. snd (setup_state L w s) ''provider'' = Some (PStr p) \<and>
               default_model_name L p = Some m \<and>
               snd (setup_state L w s) ''model'' = Some (PStr m)"
proof -
  have "(''model'', reset_model L) \<in> set (setup_state_steps L w)"
    by (simp add: setup_state_steps_def)
  from setup_state_ran [of "''model''" "reset_model L" L w s, OF this assms] obtain s1 s2
    where r: "reset_model L s1 = Inr s2" and le: "s2 \<subseteq>\<^sub>m snd (setup_state L w s)" by auto
  from reset_model_Inr [OF r] obtain p m where p: "s1 ''provider'' = Some (PStr p)"
    and m: "default_model_name L p = Some m" and s2: "s2 = s1(''model'' \<mapsto> PStr m)"
    by auto
  from s2 p have a: "s2 ''provider'' = Some (PStr p)" and b: "s2 ''model'' = Some (PStr m)"
    by simp_all
  from map_le_lookup [of s2 "snd (setup_state L w s)" "''provider''" "PStr p", OF le a]
    map_le_lookup [of s2 "snd (setup_state L w s)" "''model''" "PStr m", OF le b] m
  show ?thesis by auto
qed

lemma load_from_storage_nonempty: "load_from_storage w f = Some d \<Longrightarrow> d \<noteq> []"
  by (auto simp: load_from_storage_def Let_def split: file_read.splits if_splits)

lemma api_key_default_chain:
  "api_key_default w =
     resolve_chain (load_from_storage w ''api_key'')
       (nonempty (environ w ''ANTHROPIC_API_KEY'')) ''YOUR_API_KEY_HERE''"
proof (cases "load_from_storage w ''api_key''")
  case None
  then show ?thesis
    by (cases "environ w ''ANTHROPIC_API_KEY''")
       (simp_all add: api_key_default_def resolve_chain_def nonempty_def getenv_def)
next
  case (Some d)
  with load_from_storage_nonempty [OF Some] show ?thesis
    by (simp add: api_key_default_def resolve_chain_def)
qed

lemma provider_default_chain:
  "provider_default L w =
     (case environ w ''API_PROVIDER'' of
        None \<Rightarrow> ''anthropic''
      | Some v \<Rightarrow> if v = [] then anthropic_provider L else v)"
  by (cases "environ w ''API_PROVIDER''") (simp_all add: provider_default_def getenv_def)

lemma custom_system_prompt_default_chain:
  "custom_system_prompt_default w = resolve_chain (load_from_storage w ''system_prompt'') None []"
  by (cases "load_from_storage w ''system_prompt''")
     (simp_all add: custom_system_prompt_default_def resolve_chain_def)

lemma setup_state_sets_custom_system_prompt:
  assumes "s ''custom_system_prompt'' = None" and "fst (setup_state L w s) = None"
  shows "snd (setup_state L w s) ''custom_system_prompt'' =
           Some (PStr (custom_system_prompt_default w))"
proof -
  have "(''custom_system_prompt'',
          \<lambda>s. Inr (s(''custom_system_prompt'' \<mapsto> PStr (custom_system_prompt_default w))))
        \<in> set (setup_state_steps L w)"
    by (simp add: setup_state_steps_def)
  from setup_state_sets_constant [of "''custom_system_prompt''" _ L w s, OF this assms]
  show ?thesis .
qed

lemma setup_state_sets_only_n:
  assumes "s ''only_n_most_recent_images'' = None" and "fst (setup_state L w s) = None"
  shows "snd (setup_state L w s) ''only_n_most_recent_images'' = Some (PInt 10)"
proof -
  have "(''only_n_most_recent_images'', \<lambda>s. Inr (s(''only_n_most_recent_images'' \<mapsto> PInt 10)))
        \<in> set (setup_state_steps L w)"
    by (simp add: setup_state_steps_def)
  from setup_state_sets_constant [of "''only_n_most_recent_images''" _ L w s, OF this assms]
  show ?thesis .
qed

lemma setup_state_sets_hide_images:
  assumes "s ''hide_images'' = None" and "fst (setup_state L w s) = None"
  shows "snd (setup_state L w s) ''hide_images'' = Some (PBool False)"
proof -
  have "(''hide_images'', \<lambda>s. Inr (s(''hide_images'' \<mapsto> PBool False)))
        \<in> set (setup_state_steps L w)"
    by (simp add: setup_state_steps_def)
  from setup_state_sets_constant [of "''hide_images''" _ L w s, OF this assms]
  show ?thesis .
qed

lemma setup_state_api_key_nonempty:
  assumes "s ''api_key'' = None"
  shows "\<exists>k. snd (setup_state L w s) ''api_key'' = Some (PStr k) \<and> k \<noteq> []"
proof -
  have "api_key_default w \<noteq> []"
    using load_from_storage_nonempty [of w "''api_key''"]
    by (auto simp: api_key_default_def Let_def split: option.splits)
  with setup_state_sets_api_key [of s L w, OF assms] show ?thesis by auto
qed

lemma wrapper_calls_loop:
  "s ''api_key'' = Some (PStr k) \<Longrightarrow> k \<noteq> [] \<Longrightarrow>
   sampling_loop_wrapper L w s = sampling_loop_call L w s"
  by (simp add: sampling_loop_wrapper_def state_get_def)

text \<open>
  C8, as amended. When the bootstrap returns, each configuration field that was missing
  holds the value of its own chain: the API key the stored value, else the environment,
  else the placeholder (a blank file and an empty variable supply nothing); the
  provider the environment, else \<open>anthropic\<close>, and never the storage; the model the
  table's entry for the provider; the system prompt suffix the stored value, else the
  empty string, and never the environment; the image limit 10; the image-hiding flag
  false.
\<close>

theorem setup_state_resolution:
  assumes "fst (setup_state L w s) = None"
  shows "(s ''api_key'' = None \<longrightarrow>
            snd (setup_state L w s) ''api_key'' =
              Some (PStr (resolve_chain (load_from_storage w ''api_key'')
                            (nonempty (environ w ''ANTHROPIC_API_KEY'')) ''YOUR_API_KEY_HERE''))) \<and>
         (s ''provider'' = None \<longrightarrow>
            snd (setup_state L w s) ''provider'' =
              Some (PStr (case environ w ''API_PROVIDER'' of
                            None \<Rightarrow> ''anthropic''
                          | Some v \<Rightarrow> if v = [] then anthropic_provider L else v))) \<and>
         (s ''model'' = None \<longrightarrow>
            (\<exists>p m. snd (setup_state L w s) ''provider'' = Some (PStr p) \<and>
                    default_model_name L p = Some m \<and>
                    snd (setup_state L w s) ''model'' = Some (PStr m))) \<and>
         (s ''custom_system_prompt'' = None \<longrightarrow>
            snd (setup_state L w s) ''custom_system_prompt'' =
              Some (PStr (resolve_chain (load_from_storage w ''system_prompt'') None []))) \<and>
         (s ''only_n_most_recent_images'' = None \<longrightarrow>
            snd (setup_state L w s) ''only_n_most_recent_images'' = Some (PInt 10)) \<and>
         (s ''hide_images'' = None \<longrightarrow>
            snd (setup_state L w s) ''hide_images'' = Some (PBool False))"
proof (intro conjI impI)
  assume a: "s ''api_key'' = None"
  from setup_state_sets_api_key [of s L w, OF a]
  show "snd (setup_state L w s) ''api_key'' =
          Some (PStr (resolve_chain (load_from_storage w ''api_key'')
                        (nonempty (environ w ''ANTHROPIC_API_KEY'')) ''YOUR_API_KEY_HERE''))"
    by (simp only: api_key_default_chain)
next
  assume a: "s ''provider'' = None"
  from setup_state_sets_provider [of s L w, OF a]
  show "snd (setup_state L w s) ''provider'' =
          Some (PStr (case environ w ''API_PROVIDER'' of
                        None \<Rightarrow> ''anthropic''
                      | Some v \<Rightarrow> if v = [] then anthropic_provider L else v))"
    by (simp only: provider_default_chain)
next
  assume a: "s ''model'' = None"
  from setup_state_sets_model [of s L w, OF a assms]
  show "\<exists>p m. snd (setup_state L w s) ''provider'' = Some (PStr p) \<and>
               default_model_name L p = Some m \<and>
               snd (setup_state L w s) ''model'' = Some (PStr m)" .
next
  assume a: "s ''custom_system_prompt'' = None"
  from setup_state_sets_custom_system_prompt [of s L w, OF a assms]
  show "snd (setup_state L w s) ''custom_system_prompt'' =
          Some (PStr (resolve_chain (load_from_storage w ''system_prompt'') None []))"
    by (simp only: custom_system_prompt_default_chain)
next
  assume a: "s ''only_n_most_recent_images'' = None"
  from setup_state_sets_only_n [of s L w, OF a assms]
  show "snd (setup_state L w s) ''only_n_most_recent_images'' = Some (PInt 10)" .
next
  assume a: "s ''hide_images'' = None"
  from setup_state_sets_hide_images [of s L w, OF a assms]
  show "snd (setup_state L w s) ''hide_images'' = Some (PBool False)" .
qed

lemmas eval_setup =
  setup_state_def setup_state_steps_def reset_model_def example_lib_def example_world_def
  api_key_default_def load_from_storage_def getenv_def provider_default_def
  custom_system_prompt_default_def no_files_def py_strip_def py_isspace_def

lemma stored_world_values:
  "load_from_storage (example_world stored_files stored_env steady_clock) ''api_key'' = Some ''sk-ant-stored''"
  "load_from_storage (example_world stored_files stored_env steady_clock) ''system_prompt'' = Some ''be brief''"
  "environ (example_world stored_files stored_env steady_clock) ''API_PROVIDER'' = Some ''bedrock''"
  by (simp_all add: load_from_storage_def example_world_def stored_files_def stored_env_def
        py_strip_def py_isspace_def)

lemma stored_world_returns:
  "fst (setup_state (example_lib []) (example_world stored_files stored_env steady_clock) Map.empty)
   = None"
  by (simp add: eval_setup stored_files_def stored_env_def)

theorem setup_state_resolution_witness:
  "fst (setup_state (example_lib []) (example_world stored_files stored_env steady_clock) Map.empty)
     = None \<and>
   snd (setup_state (example_lib []) (example_world stored_files stored_env steady_clock) Map.empty)
     ''api_key'' = Some (PStr ''sk-ant-stored'') \<and>
   snd (setup_state (example_lib []) (example_world stored_files stored_env steady_clock) Map.empty)
     ''provider'' = Some (PStr ''bedrock'') \<and>
   snd (setup_state (example_lib []) (example_world stored_files stored_env steady_clock) Map.empty)
     ''custom_system_prompt'' = Some (PStr ''be brief'') \<and>
   snd (setup_state (example_lib []) (example_world stored_files stored_env steady_clock) Map.empty)
     ''only_n_most_recent_images'' = Some (PInt 10) \<and>
   snd (setup_state (example_lib []) (example_world stored_files stored_env steady_clock) Map.empty)
     ''hide_images'' = Some (PBool False)"
  using setup_state_resolution [of "example_lib []"
          "example_world stored_files stored_env steady_clock" Map.empty,
          OF stored_world_returns]
  by (simp add: stored_world_values stored_world_returns resolve_chain_def)

theorem provider_ignores_storage_counterexample:
  "snd (setup_state (example_lib []) (example_world bedrock_files Map.empty steady_clock) Map.empty)
     ''provider''
   \<noteq> Some (PStr (resolve_chain
                  (load_from_storage (example_world bedrock_files Map.empty steady_clock) ''provider'')
                  (environ (example_world bedrock_files Map.empty steady_clock) ''API_PROVIDER'')
                  ''anthropic''))"
proof -
  have "snd (setup_state (example_lib []) (example_world bedrock_files Map.empty steady_clock)
          Map.empty) ''provider'' = Some (PStr ''anthropic'')"
    using setup_state_sets_provider [of Map.empty "example_lib []"
            "example_world bedrock_files Map.empty steady_clock"]
    by (simp add: provider_default_def getenv_def example_world_def)
  moreover have "load_from_storage (example_world bedrock_files Map.empty steady_clock) ''provider''
      = Some ''bedrock''"
    by (simp add: load_from_storage_def example_world_def bedrock_files_def py_strip_def py_isspace_def)
  ultimately show ?thesis by (simp add: resolve_chain_def)
qed

text \<open>
  C9, as amended. When the state holds no API key before the bootstrap, it holds one
  after it, a non-empty string: the placeholder when neither the storage nor the
  environment supplies a key. On that state \<open>sampling_loop_wrapper\<close> does not take
  its missing-key branch and goes on to the call of the agent loop.
\<close>

theorem bootstrap_sets_api_key:
  assumes "s ''api_key'' = None"
  shows "(\<exists>k. snd (setup_state L w s) ''api_key'' = Some (PStr k) \<and> k \<noteq> []) \<and>
         (load_from_storage w ''api_key'' = None \<and> nonempty (environ w ''ANTHROPIC_API_KEY'') = None
            \<longrightarrow> snd (setup_state L w s) ''api_key'' = Some (PStr ''YOUR_API_KEY_HERE'')) \<and>
         sampling_loop_wrapper L w' (snd (setup_state L w s)) =
           sampling_loop_call L w' (snd (setup_state L w s))"
proof (intro conjI impI)
  from setup_state_api_key_nonempty [of s L w, OF assms]
  show "\<exists>k. snd (setup_state L w s) ''api_key'' = Some (PStr k) \<and> k \<noteq> []" .
next
  assume "load_from_storage w ''api_key'' = None \<and> nonempty (environ w ''ANTHROPIC_API_KEY'') = None"
  with setup_state_sets_api_key [of s L w, OF assms]
  show "snd (setup_state L w s) ''api_key'' = Some (PStr ''YOUR_API_KEY_HERE'')"
    by (simp add: api_key_default_chain resolve_chain_def)
next
  from setup_state_api_key_nonempty [of s L w, OF assms] obtain k
    where "snd (setup_state L w s) ''api_key'' = Some (PStr k)" and "k \<noteq> []" by auto
  then show "sampling_loop_wrapper L w' (snd (setup_state L w s)) =
               sampling_loop_call L w' (snd (setup_state L w s))"
    by (rule wrapper_calls_loop)
qed

theorem bootstrap_sets_api_key_witness:
  "(Map.empty :: state) ''api_key'' = None \<and>
   snd (setup_state (example_lib []) (example_world no_files Map.empty steady_clock) Map.empty)
     ''api_key'' = Some (PStr ''YOUR_API_KEY_HERE'') \<and>
   sampling_loop_wrapper (example_lib []) (example_world no_files Map.empty steady_clock)
     (snd (setup_state (example_lib []) (example_world no_files Map.empty steady_clock) Map.empty)) =
   sampling_loop_call (example_lib []) (example_world no_files Map.empty steady_clock)
     (snd (setup_state (example_lib []) (example_world no_files Map.empty steady_clock) Map.empty))"
  using bootstrap_sets_api_key [of Map.empty "example_lib []"
          "example_world no_files Map.empty steady_clock"
          "example_world no_files Map.empty steady_clock"]
  by (simp add: load_from_storage_def example_world_def no_files_def nonempty_def)

theorem preset_empty_api_key_counterexample:
  "snd (setup_state (example_lib []) (example_world no_files Map.empty steady_clock) blank_key_state)
     ''api_key'' = Some (PStr []) \<and>
   fst (fst (sampling_loop_wrapper (example_lib []) (example_world no_files Map.empty steady_clock)
     (snd (setup_state (example_lib []) (example_world no_files Map.empty steady_clock)
        blank_key_state))))
   = Some (ValueError ''API key is missing. Please set it in the environment or storage.'')"
proof -
  have k: "snd (setup_state (example_lib []) (example_world no_files Map.empty steady_clock)
             blank_key_state) ''api_key'' = Some (PStr [])"
    using setup_state_keeps [of blank_key_state "''api_key''" "PStr []" "example_lib []"
            "example_world no_files Map.empty steady_clock"]
    by (simp add: blank_key_state_def)
  then show ?thesis by (simp add: sampling_loop_wrapper_def state_get_def)
qed

section \<open>Properties of the display loop\<close>

lemma render_loop_res:
  "render_loop L w res msgs =
     (res @ fst (render_loop L w [] msgs), snd (render_loop L w [] msgs))"
proof (induction msgs arbitrary: w res)
  case Nil
  show ?case by simp
next
  case (Cons msg rest)
  obtain r w' where t: "render_turn L w msg = (r, w')" by (cases "render_turn L w msg")
  show ?case
  proof (cases r)
    case (Inl e)
    with t Cons.IH [of w' res] show ?thesis by simp
  next
    case (Inr po)
    show ?thesis
    proof (cases po)
      case None
      with t Inr Cons.IH [of w' res] show ?thesis by simp
    next
      case (Some pair)
      with t Inr Cons.IH [of w' "res @ [pair]"] Cons.IH [of w' "[pair]"]
      show ?thesis by simp
    qed
  qed
qed

lemma render_loop_Cons:
  "render_loop L w [] (msg # rest) =
     (turn_pairs (fst (render_turn L w msg)) @
        fst (render_loop L (snd (render_turn L w msg)) [] rest),
      snd (render_loop L (snd (render_turn L w msg)) [] rest))"
proof -
  obtain r w' where t: "render_turn L w msg = (r, w')" by (cases "render_turn L w msg")
  show ?thesis
  proof (cases r)
    case (Inl e)
    with t show ?thesis by (simp add: turn_pairs_def)
  next
    case (Inr po)
    show ?thesis
    proof (cases po)
      case None
      with t Inr show ?thesis by (simp add: turn_pairs_def)
    next
      case (Some pair)
      with t Inr render_loop_res [of L w' "[pair]" rest]
      show ?thesis by (simp add: turn_pairs_def)
    qed
  qed
qed

lemma render_loop_append:
  "render_loop L w [] (xs @ ys) =
     (fst (render_loop L w [] xs) @ fst (render_loop L (snd (render_loop L w [] xs)) [] ys),
      snd (render_loop L (snd (render_loop L w [] xs)) [] ys))"
proof (induction xs arbitrary: w)
  case Nil
  show ?case by simp
next
  case (Cons x xs)
  have "render_loop L w [] ((x # xs) @ ys) = render_loop L w [] (x # (xs @ ys))"
    by (simp del: render_loop.simps(2))
  also have "\<dots> =
      (turn_pairs (fst (render_turn L w x)) @
         fst (render_loop L (snd (render_turn L w x)) [] (xs @ ys)),
       snd (render_loop L (snd (render_turn L w x)) [] (xs @ ys)))"
    by (rule render_loop_Cons)
  finally show ?case
    by (simp del: render_loop.simps(2)
          add: Cons.IH [of "snd (render_turn L w x)"] render_loop_Cons [of L w x xs])
qed



lemma render_image_block_result:
  "(\<exists>e. fst (render_image_block L w b) = Inl e) \<or>
   (\<exists>p. fst (render_image_block L w b) = Inr (Some (None, Some (GrImage p))))"
  by (auto simp: render_image_block_def Let_def split: sum.splits prod.splits)




lemmas eval_render =
  render_turn_def content_0_def render_image_block_def decode_base64_image_def
  strip_data_prefix_def startswith_def now_def strftime_stamp_def pad2_def pad4_def digit_def
  msg_txt_path_def tool_use_text_def fmt_def turn_pairs_def example_lib_def example_world_def
  user_turn_def tool_result_turn_def text_item_def image_item_def assistant_turn_def
  steady_clock_def ticking_clock_def



text \<open>
  C5. A turn on which the body of the display loop raises, whatever the exception, adds
  no pair and does not stop the loop: the pairs of the store are those of the turns
  before it followed by those of the turns after it. When the exception comes from
  reading \<open>msg["content"][0]\<close>, nothing else has happened, and the store renders as
  if the turn were not there.
\<close>

theorem render_loop_skips_raising_turn:
  "(fst (render_turn L (snd (render_loop L w [] pre)) msg) = Inl e \<longrightarrow>
      fst (render_loop L w [] (pre @ msg # post)) =
        fst (render_loop L w [] pre) @
        fst (render_loop L (snd (render_turn L (snd (render_loop L w [] pre)) msg)) [] post)) \<and>
   (content_0 msg = Inl e' \<longrightarrow>
      render_loop L w [] (pre @ msg # post) = render_loop L w [] (pre @ post))"
proof (intro conjI impI)
  assume "fst (render_turn L (snd (render_loop L w [] pre)) msg) = Inl e"
  then show "fst (render_loop L w [] (pre @ msg # post)) =
        fst (render_loop L w [] pre) @
        fst (render_loop L (snd (render_turn L (snd (render_loop L w [] pre)) msg)) [] post)"
    by (simp del: render_loop.simps(2) add: render_loop_append [of L w pre "msg # post"]
          render_loop_Cons [of L "snd (render_loop L w [] pre)" msg post] turn_pairs_def)
next
  assume c: "content_0 msg = Inl e'"
  have t: "\<And>w0. render_turn L w0 msg = (Inl e', w0)"
    by (simp add: render_turn_def c)
  show "render_loop L w [] (pre @ msg # post) = render_loop L w [] (pre @ post)"
    by (simp del: render_loop.simps(2)
          add: render_loop_append [of L w pre "msg # post"] render_loop_append [of L w pre post]
          render_loop_Cons [of L "snd (render_loop L w [] pre)" msg post] t turn_pairs_def)
qed

theorem render_loop_skips_raising_turn_witness:
  "content_0 malformed_turn = Inl KeyError \<and>
   fst (render_turn (example_lib [])
          (snd (render_loop (example_lib []) (example_world no_files Map.empty steady_clock) []
                  [user_turn ''hi''])) malformed_turn) = Inl KeyError \<and>
   fst (render_loop (example_lib []) (example_world no_files Map.empty steady_clock) []
          ([user_turn ''hi''] @ malformed_turn # [assistant_turn (PBetaTextBlock ''hello'')]))
     = [(Some (Utterance ''hi''), None), (None, Some (Utterance ''hello''))]"
  using render_loop_skips_raising_turn [of "example_lib []"
          "example_world no_files Map.empty steady_clock" "[user_turn ''hi'']" malformed_turn
          KeyError "[assistant_turn (PBetaTextBlock ''hello'')]" KeyError]
  by (simp add: eval_render malformed_turn_def)

text \<open>
  C6, as amended. The display loop places a text by the class of the block and never
  reads the role of the turn: whatever the role, a \<open>TextBlock\<close> (the class in which
  \<open>process_input\<close> stores the user's input, in a turn of role \<open>user\<close>) renders to the
  pair with the text on the left, and a \<open>BetaTextBlock\<close> (the class of the model's
  replies) renders to the pair with the text on the right; two turns that differ in
  their role only render alike.
\<close>

theorem render_turn_text_sides:
  "content_0 (user_turn u) = Inr (PTextBlock u) \<and>
   subscript_key (user_turn u) ''role'' = Inr (PStr ''user'') \<and>
   (content_0 msg = Inr (PTextBlock t) \<longrightarrow>
      render_turn L w msg = (Inr (Some (Some (Utterance t), None)), w) \<and>
      fst (render_loop L w [] [msg]) = [(Some (Utterance t), None)]) \<and>
   (content_0 msg = Inr (PBetaTextBlock t) \<longrightarrow>
      render_turn L w msg = (Inr (Some (None, Some (Utterance t))), w) \<and>
      fst (render_loop L w [] [msg]) = [(None, Some (Utterance t))]) \<and>
   render_turn L w (PDict [(''role'', role), (''content'', c)]) =
     render_turn L w (PDict [(''role'', role'), (''content'', c)])"
  by (simp add: render_turn_def content_0_def user_turn_def)

theorem render_turn_text_sides_witness:
  "content_0 (user_turn ''hello'') = Inr (PTextBlock ''hello'') \<and>
   fst (render_loop (example_lib []) (example_world no_files Map.empty steady_clock) []
          [user_turn ''hello'']) = [(Some (Utterance ''hello''), None)] \<and>
   content_0 (assistant_turn (PBetaTextBlock ''hello'')) = Inr (PBetaTextBlock ''hello'') \<and>
   fst (render_loop (example_lib []) (example_world no_files Map.empty steady_clock) []
          [assistant_turn (PBetaTextBlock ''hello'')]) = [(None, Some (Utterance ''hello''))] \<and>
   content_0 (assistant_turn (PTextBlock ''hello'')) = Inr (PTextBlock ''hello'') \<and>
   fst (render_loop (example_lib []) (example_world no_files Map.empty steady_clock) []
          [assistant_turn (PTextBlock ''hello'')]) = [(Some (Utterance ''hello''), None)]"
  using render_turn_text_sides [where u = "''hello''" and msg = "user_turn ''hello''"
          and t = "''hello''" and L = "example_lib []"
          and w = "example_world no_files Map.empty steady_clock"]
        render_turn_text_sides [where msg = "assistant_turn (PBetaTextBlock ''hello'')"
          and t = "''hello''" and L = "example_lib []"
          and w = "example_world no_files Map.empty steady_clock"]
        render_turn_text_sides [where msg = "assistant_turn (PTextBlock ''hello'')"
          and t = "''hello''" and L = "example_lib []"
          and w = "example_world no_files Map.empty steady_clock"]
  by (simp add: content_0_def user_turn_def assistant_turn_def)

theorem assistant_text_block_counterexample:
  "subscript_key (assistant_turn (PTextBlock ''hello'')) ''role'' = Inr (PStr ''assistant'') \<and>
   fst (render_loop (example_lib []) (example_world no_files Map.empty steady_clock) []
          [assistant_turn (PTextBlock ''hello'')]) \<noteq> [(None, Some (Utterance ''hello''))]"
  by (simp add: eval_render)

section \<open>Properties of the store and of tool results\<close>

text \<open>
  C4, as amended. Appending to the store never fails with an error about the turn: the
  store is a list and \<open>append\<close> takes any turn, one with an empty content sequence
  too, and the store grows by that turn. The turn \<open>process_input\<close> appends always
  holds one text block. An append fails only when \<open>state["messages"]\<close> is not a
  list. A turn with an empty content sequence is met at display time, where reading
  its first block raises \<open>IndexError\<close> and the turn is skipped.
\<close>

theorem append_turn_never_rejects:
  "list_append (PList turns) turn = Inr (PList (turns @ [turn])) \<and>
   (s ''messages'' = Some (PList turns) \<longrightarrow>
      append_user_turn u s = Inr (s(''messages'' \<mapsto> PList (turns @ [user_turn u])))) \<and>
   content_0 (user_turn u) = Inr (PTextBlock u) \<and>
   (list_append v turn = Inl e \<longrightarrow> (\<forall>ts. v \<noteq> PList ts)) \<and>
   render_turn L w empty_turn = (Inl IndexError, w)"
  by (auto simp: list_append_def append_user_turn_def content_0_def user_turn_def
        render_turn_def empty_turn_def)

theorem append_turn_never_rejects_witness:
  "fresh_state ''messages'' = Some (PList []) \<and>
   append_user_turn ''hi'' fresh_state =
     Inr (fresh_state(''messages'' \<mapsto> PList ([] @ [user_turn ''hi'']))) \<and>
   list_append PNone empty_turn = Inl AttributeError \<and>
   (\<forall>ts. PNone \<noteq> PList ts)"
  using append_turn_never_rejects [of "[]" empty_turn fresh_state "''hi''" PNone AttributeError]
  by (simp add: fresh_state_def list_append_def)

theorem append_empty_turn_counterexample:
  "list_append (PList []) empty_turn = Inr (PList [empty_turn])"
  by (simp add: list_append_def)

lemma render_turn_dict_block:
  assumes "content_0 msg = Inr (PDict d)"
  shows "turn_pairs (fst (render_turn L w msg)) = [] \<or>
         (\<exists>p. turn_pairs (fst (render_turn L w msg)) = [(None, Some (GrImage p))])"
proof (cases "content_0 (PDict d)")
  case (Inl e)
  with assms show ?thesis by (simp add: render_turn_def turn_pairs_def)
next
  case (Inr item)
  show ?thesis
  proof (cases "subscript_key item ''type''")
    case (Inl e)
    with assms Inr show ?thesis by (simp add: render_turn_def turn_pairs_def)
  next
    case ty: (Inr ty)
    show ?thesis
    proof (cases "ty = PStr ''image''")
      case True
      with assms Inr ty have "render_turn L w msg = render_image_block L w (PDict d)"
        by (simp add: render_turn_def)
      with render_image_block_result [of L w "PDict d"] show ?thesis
        by (auto simp: turn_pairs_def)
    next
      case False
      with assms Inr ty show ?thesis by (simp add: render_turn_def turn_pairs_def)
    qed
  qed
qed

text \<open>
  C1, as amended. \<open>_render_message\<close>, given a tool result that is true, returns its
  output when the output is true (a non-empty string), and otherwise the text
  \<open>"Error: "\<close> followed by the error when the error is true; it returns the value, not
  a pair. In the store a tool result is a dict block (or, were it put there as it is,
  an object), and the display loop of \<open>process_input\<close> yields for such a turn either
  no pair or the pair of a saved image: never its output or its error.
\<close>

theorem render_message_tool_result:
  "(is_tool_result L m \<and> truthy L m \<and> s ''hide_images'' = Some h \<and>
    getattr m ''output'' = Inr out \<and> truthy L out
      \<longrightarrow> render_message L sndr m s = Inr out) \<and>
   (is_tool_result L m \<and> truthy L m \<and> s ''hide_images'' = Some h \<and>
    getattr m ''output'' = Inr out \<and> \<not> truthy L out \<and>
    getattr m ''error'' = Inr err \<and> truthy L err
      \<longrightarrow> render_message L sndr m s = Inr (PStr (''Error: '' @ fmt L err))) \<and>
   (content_0 msg = Inr (PDict d)
      \<longrightarrow> turn_pairs (fst (render_turn L w msg)) = [] \<or>
          (\<exists>p. turn_pairs (fst (render_turn L w msg)) = [(None, Some (GrImage p))])) \<and>
   (content_0 msg = Inr (PObject c attrs)
      \<longrightarrow> turn_pairs (fst (render_turn L w msg)) = [])"
proof (intro conjI impI)
  assume "is_tool_result L m \<and> truthy L m \<and> s ''hide_images'' = Some h \<and>
    getattr m ''output'' = Inr out \<and> truthy L out"
  then show "render_message L sndr m s = Inr out"
    by (simp add: render_message_def render_nothing_def render_tool_result_def hasattr_def)
next
  assume "is_tool_result L m \<and> truthy L m \<and> s ''hide_images'' = Some h \<and>
    getattr m ''output'' = Inr out \<and> \<not> truthy L out \<and>
    getattr m ''error'' = Inr err \<and> truthy L err"
  then show "render_message L sndr m s = Inr (PStr (''Error: '' @ fmt L err))"
    by (simp add: render_message_def render_nothing_def render_tool_result_def hasattr_def)
next
  assume "content_0 msg = Inr (PDict d)"
  then show "turn_pairs (fst (render_turn L w msg)) = [] \<or>
          (\<exists>p. turn_pairs (fst (render_turn L w msg)) = [(None, Some (GrImage p))])"
    by (rule render_turn_dict_block)
next
  assume "content_0 msg = Inr (PObject c attrs)"
  then show "turn_pairs (fst (render_turn L w msg)) = []"
    by (simp add: render_turn_def turn_pairs_def)
qed

lemmas eval_message =
  render_message_def render_nothing_def render_tool_result_def hasattr_def is_tool_result_def
  b64decode_value_def tool_result_def showing_state_def hiding_state_def

theorem render_message_tool_result_witness:
  "is_tool_result (example_lib []) (tool_result (PStr ''42'') PNone PNone) \<and>
   truthy (example_lib []) (tool_result (PStr ''42'') PNone PNone) \<and>
   render_message (example_lib []) BOT (tool_result (PStr ''42'') PNone PNone) showing_state
     = Inr (PStr ''42'') \<and>
   render_message (example_lib []) BOT (tool_result PNone (PStr ''boom'') PNone) showing_state
     = Inr (PStr ''Error: boom'') \<and>
   turn_pairs (fst (render_turn (example_lib []) (example_world no_files Map.empty steady_clock)
     (tool_result_turn (PList [text_item ''42'']) False))) = []"
  using render_message_tool_result [of "example_lib []" "tool_result (PStr ''42'') PNone PNone"
          showing_state "PBool False" "PStr ''42''" BOT PNone
          "tool_result_turn (PList [text_item ''42'']) False" _
          "example_world no_files Map.empty steady_clock"]
        render_message_tool_result [of "example_lib []" "tool_result PNone (PStr ''boom'') PNone"
          showing_state "PBool False" PNone BOT "PStr ''boom''"
          "tool_result_turn (PList [text_item ''42'']) False" _
          "example_world no_files Map.empty steady_clock"]
  by (simp add: eval_message eval_render)

theorem text_tool_result_turn_counterexample:
  "fst (render_loop (example_lib []) (example_world no_files Map.empty steady_clock) []
          [tool_result_turn (PList [text_item ''42'']) False])
   \<noteq> [(None, Some (Utterance ''42''))]"
  by (simp add: eval_render)

section \<open>Screenshots\<close>

lemma decode_base64_image_returns:
  assumes "strip_data_prefix v = Inr s" and "b64decode L s = Inr d" and "image_open L d = Inr img"
    and "writable w (strftime_stamp (clock w (ticks w)) @ ''.png'')"
  shows "decode_base64_image L w v =
           (Inr (strftime_stamp (clock w (Suc (ticks w))) @ ''.png''),
            w\<lparr>ticks := Suc (Suc (ticks w)),
              disk := (disk w)(strftime_stamp (clock w (ticks w)) @ ''.png'' \<mapsto> PngFile img)\<rparr>)"
  using assms by (simp add: decode_base64_image_def now_def Let_def)

text \<open>
  The sibling path: \<open>_render_message\<close> returns nothing for a tool result that holds
  only an image when screenshots are hidden, and the decoded bytes when they are shown.
\<close>

lemma render_message_hides_image:
  "render_message (example_lib []) BOT (tool_result PNone PNone (PStr ''iVBORw0KGgo='')) hiding_state
     = Inr PNone"
  "render_message (example_lib []) BOT (tool_result PNone PNone (PStr ''iVBORw0KGgo='')) showing_state
     = Inr (PBytes ''PNG'')"
  by (simp_all add: eval_message example_lib_def)

text \<open>
  C10, on the code. With a clock that passes a second boundary between the two calls
  of \<open>now()\<close> (12:00:00.95 and 12:00:01.02), \<open>decode_base64_image\<close> saves the image
  as \<open>2024-01-01_12-00-00.png\<close> and returns \<open>2024-01-01_12-00-01.png\<close>, a name
  under which nothing was saved.
\<close>

theorem decode_base64_image_name_mismatch:
  "fst (decode_base64_image (example_lib []) (example_world no_files Map.empty ticking_clock)
          (PStr ''iVBORw0KGgo='')) = Inr ''2024-01-01_12-00-01.png'' \<and>
   disk (snd (decode_base64_image (example_lib []) (example_world no_files Map.empty ticking_clock)
          (PStr ''iVBORw0KGgo=''))) ''2024-01-01_12-00-01.png'' = None \<and>
   disk (snd (decode_base64_image (example_lib []) (example_world no_files Map.empty ticking_clock)
          (PStr ''iVBORw0KGgo=''))) ''2024-01-01_12-00-00.png'' = Some (PngFile ''PNG-image'')"
  by (simp add: eval_render)

lemmas eval_process =
  process_input_def append_user_turn_def list_append_def sampling_loop_wrapper_def
  sampling_loop_call_def state_get_def hiding_state_def screenshot_turn_def

text \<open>
  C2, on the code. With screenshots hidden (\<open>hide_images\<close> true in the state) and an
  agent loop that answers with a tool result holding only an image, \<open>process_input\<close>
  still decodes the image, saves it and shows it: the display loop never reads the
  flag, which \<open>_render_message\<close> honours.
\<close>

theorem process_input_shows_hidden_image:
  "fst (process_input (example_lib [screenshot_turn])
          (example_world no_files Map.empty steady_clock) ''look'' hiding_state)
     = Inr [(Some (Utterance ''look''), None),
            (None, Some (GrImage ''2024-01-01_12-00-00.png''))] \<and>
   fst (snd (process_input (example_lib [screenshot_turn])
          (example_world no_files Map.empty steady_clock) ''look'' hiding_state)) ''hide_images''
     = Some (PBool True) \<and>
   disk (snd (snd (process_input (example_lib [screenshot_turn])
          (example_world no_files Map.empty steady_clock) ''look'' hiding_state)))
        ''2024-01-01_12-00-00.png''
     = Some (PngFile ''PNG-image'')"
  by (simp add: eval_process eval_render setup_state_def setup_state_steps_def reset_model_def
        api_key_default_def load_from_storage_def getenv_def provider_default_def
        custom_system_prompt_default_def no_files_def)

end
